theory Spec2Isabelle
  imports Main
begin

section \<open>The event display receiver: requests, streams and the log\<close>

text \<open>
  The program is \<^verbatim>\<open>cmd/event_display/main.go\<close>. A Go \<^verbatim>\<open>string\<close> and a
  \<^verbatim>\<open>[]byte\<close> are both byte sequences, so both are HOL strings and the conversion
  \<^verbatim>\<open>string(body)\<close> is the identity. A Go \<^verbatim>\<open>error\<close> is carried with the text
  its \<^verbatim>\<open>Error()\<close> method prints.
\<close>

datatype error = Error string

fun error_text :: "error \<Rightarrow> string" where
  "error_text (Error m) = m"

text \<open>
  An \<^verbatim>\<open>http.Header\<close> is a map from a field name to its values; it is listed here
  with each name once.
\<close>

type_synonym header = "(string \<times> string list) list"

text \<open>
  An \<^verbatim>\<open>io.ReadCloser\<close> as a reader observes it: the bytes it still delivers, the
  error (if any) that ends the delivery in place of \<^verbatim>\<open>io.EOF\<close>, whether
  \<^verbatim>\<open>Close\<close> has been called on it, and, for the chunked body of a server
  request, the trailer fields that follow the last chunk.
\<close>

record stream =
  pending :: string
  fault :: "error option"
  closed :: bool
  trailers :: header

text \<open>The calls a handler makes on its \<^verbatim>\<open>http.ResponseWriter\<close>, in order.\<close>

datatype rw_call = WriteHeader nat | Write string

text \<open>
  What one request can touch: the streams (a request holds its body by address, as the
  Go request holds an interface value), the entries written through package
  \<^verbatim>\<open>log\<close> (one entry for each \<^verbatim>\<open>Println\<close> or \<^verbatim>\<open>Printf\<close> call), and the calls
  made on the response writer.
\<close>

record world =
  streams :: "nat \<Rightarrow> stream"
  next_stream :: nat
  logged :: "string list"
  rw :: "rw_call list"

text \<open>
  The fields of \<^verbatim>\<open>http.Request\<close> the program reads. \<^verbatim>\<open>URL\<close> is a pointer
  (\<open>None\<close> is \<^verbatim>\<open>nil\<close>) to a value of a type the program never looks into.
\<close>

record 'u request =
  req_Method :: string
  req_URL :: "'u option"
  req_Proto :: string
  req_ProtoMajor :: int
  req_ProtoMinor :: int
  req_Header :: header
  req_Body :: nat
  req_ContentLength :: int
  req_TransferEncoding :: "string list"
  req_Host :: string
  req_Trailer :: header
  req_RemoteAddr :: string
  req_RequestURI :: string

type_synonym 'u handler = "'u request \<Rightarrow> world \<Rightarrow> world"

text \<open>What the client receives, as \<^verbatim>\<open>net/http\<close> derives it from the calls.\<close>

fun response_status :: "rw_call list \<Rightarrow> nat option" where
  "response_status [] = None"
| "response_status (WriteHeader c # cs) = Some c"
| "response_status (Write b # cs) = Some 200"

fun response_body :: "rw_call list \<Rightarrow> string" where
  "response_body [] = []"
| "response_body (WriteHeader c # cs) = response_body cs"
| "response_body (Write b # cs) = b @ response_body cs"

definition Println :: "string \<Rightarrow> world \<Rightarrow> world" where
  "Println s w = w\<lparr>logged := logged w @ [s]\<rparr>"

subsection \<open>The health endpoint\<close>

definition healthzPath :: string where
  "healthzPath = ''/healthz''"

definition StatusNoContent :: nat where
  "StatusNoContent = 204"

definition healthzMiddleware :: "'u handler \<Rightarrow> 'u handler" where
  "healthzMiddleware next req w =
     (if req_RequestURI req = healthzPath
      then w\<lparr>rw := rw w @ [WriteHeader StatusNoContent]\<rparr>
      else next req w)"

subsection \<open>Request logging\<close>

text \<open>
  The body of a server request keeps a pointer to its request: when a read reaches the
  end of a chunked body, \<^verbatim>\<open>net/http\<close> reads the trailer fields that follow and
  merges them into the \<^verbatim>\<open>Trailer\<close> of the request (\<^verbatim>\<open>mergeSetHeader\<close>: each
  field of the source is set in the destination). A read that ends in an error delivers
  no trailer.
\<close>

fun set_header :: "string \<Rightarrow> string list \<Rightarrow> header \<Rightarrow> header" where
  "set_header k vv [] = [(k, vv)]"
| "set_header k vv ((k', vv') # h) =
     (if k' = k then (k, vv) # h else (k', vv') # set_header k vv h)"

definition mergeSetHeader :: "header \<Rightarrow> header \<Rightarrow> header" where
  "mergeSetHeader dst src = fold (\<lambda>(k, vv). set_header k vv) src dst"

definition trailer_after_read :: "header \<Rightarrow> stream \<Rightarrow> header" where
  "trailer_after_read t s =
     (case fault s of
        None \<Rightarrow> mergeSetHeader t (trailers s)
      | Some e \<Rightarrow> t)"

text \<open>
  \<^verbatim>\<open>io.ReadAll(req.Body)\<close> returns what the stream delivers together with its
  error, leaves the stream drained and the request with the trailer the read filled;
  \<^verbatim>\<open>Close\<close> marks the stream closed;
  \<^verbatim>\<open>io.NopCloser(bytes.NewBuffer(body))\<close> allocates a stream no request holds yet.
\<close>

definition ReadAll :: "'u request \<Rightarrow> world \<Rightarrow> (string \<times> error option) \<times> 'u request \<times> world" where
  "ReadAll req w =
     (let s = streams w (req_Body req)
      in ((pending s, fault s),
          req\<lparr>req_Trailer := trailer_after_read (req_Trailer req) s\<rparr>,
          w\<lparr>streams := (streams w)(req_Body req := s\<lparr>pending := [], trailers := []\<rparr>)\<rparr>))"

definition Close :: "nat \<Rightarrow> world \<Rightarrow> world" where
  "Close a w = w\<lparr>streams := (streams w)(a := (streams w a)\<lparr>closed := True\<rparr>)\<rparr>"

definition NopCloser_NewBuffer :: "string \<Rightarrow> world \<Rightarrow> nat \<times> world" where
  "NopCloser_NewBuffer body w =
     (next_stream w,
      w\<lparr>streams := (streams w)
           (next_stream w := \<lparr>pending = body, fault = None, closed = False, trailers = []\<rparr>),
        next_stream := Suc (next_stream w)\<rparr>)"

record 'u LoggableRequest =
  Method :: string
  URL :: "'u option"
  Proto :: string
  ProtoMajor :: int
  ProtoMinor :: int
  Header :: header
  Body :: string
  ContentLength :: int
  TransferEncoding :: "string list"
  Host :: string
  Trailer :: header
  RemoteAddr :: string
  RequestURI :: string

definition toReq :: "'u request \<Rightarrow> world \<Rightarrow> 'u LoggableRequest \<times> 'u request \<times> world" where
  "toReq req w =
     (let ((body, err), req1, w1) = ReadAll req w;
          w2 = (case err of Some e \<Rightarrow> Println ''failed to read request body'' w1 | None \<Rightarrow> w1);
          w3 = Close (req_Body req1) w2;
          (b, w4) = NopCloser_NewBuffer body w3;
          req' = req1\<lparr>req_Body := b\<rparr>
      in (\<lparr>Method = req_Method req',
           URL = req_URL req',
           Proto = req_Proto req',
           ProtoMajor = req_ProtoMajor req',
           ProtoMinor = req_ProtoMinor req',
           Header = req_Header req',
           Body = body,
           ContentLength = req_ContentLength req',
           TransferEncoding = req_TransferEncoding req',
           Host = req_Host req',
           Trailer = req_Trailer req',
           RemoteAddr = req_RemoteAddr req',
           RequestURI = req_RequestURI req'\<rparr>, req', w4))"

text \<open>
  \<^verbatim>\<open>json.MarshalIndent\<close> is a parameter: it returns the text or an error, and on an
  error the byte slice it returns is \<^verbatim>\<open>nil\<close>, which \<^verbatim>\<open>string(b)\<close> turns into
  the empty string. \<^verbatim>\<open>log.Println\<close> separates its operands by a space.
\<close>

definition logRequest ::
  "('u LoggableRequest \<Rightarrow> error + string) \<Rightarrow> 'u request \<Rightarrow> world \<Rightarrow> 'u request \<times> world" where
  "logRequest MarshalIndent req w =
     (let (lr, req', w1) = toReq req w;
          (b, w2) = (case MarshalIndent lr of
                       Inl e \<Rightarrow> ([], Println (''failed to marshal request '' @ error_text e) w1)
                     | Inr s \<Rightarrow> (s, w1))
      in (req', Println b w2))"

definition requestLoggingMiddleware ::
  "('u LoggableRequest \<Rightarrow> error + string) \<Rightarrow> bool \<Rightarrow> 'u handler \<Rightarrow> 'u handler" where
  "requestLoggingMiddleware MarshalIndent enabled next req w =
     (if enabled
      then (let (req', w') = logRequest MarshalIndent req w in next req' w')
      else next req w)"

subsection \<open>The rendered snapshot\<close>

text \<open>
  The members \<^verbatim>\<open>encoding/json\<close> writes for a \<^verbatim>\<open>LoggableRequest\<close>, in the
  order of the declaration: each with the name its tag gives it and the Go value it
  holds. A member whose tag says \<^verbatim>\<open>omitempty\<close> is left out when its value is
  empty: the empty string, 0, a \<^verbatim>\<open>nil\<close> pointer, a slice or map of length 0. The
  tags of \<^verbatim>\<open>RemoteAddr\<close> and \<^verbatim>\<open>RequestURI\<close> do not say \<^verbatim>\<open>omitempty\<close>.
\<close>

datatype 'u member_value =
    StringValue string
  | IntValue int
  | URLValue 'u
  | HeaderValue header
  | StringsValue "string list"

definition omitempty :: "bool \<Rightarrow> string \<times> 'u member_value \<Rightarrow> (string \<times> 'u member_value) list" where
  "omitempty is_empty member = (if is_empty then [] else [member])"

definition json_members :: "'u LoggableRequest \<Rightarrow> (string \<times> 'u member_value) list" where
  "json_members r =
     omitempty (Method r = []) (''method'', StringValue (Method r)) @
     (case URL r of None \<Rightarrow> [] | Some u \<Rightarrow> [(''URL'', URLValue u)]) @
     omitempty (Proto r = []) (''proto'', StringValue (Proto r)) @
     omitempty (ProtoMajor r = 0) (''protoMajor'', IntValue (ProtoMajor r)) @
     omitempty (ProtoMinor r = 0) (''protoMinor'', IntValue (ProtoMinor r)) @
     omitempty (Header r = []) (''headers'', HeaderValue (Header r)) @
     omitempty (Body r = []) (''body'', StringValue (Body r)) @
     omitempty (ContentLength r = 0) (''contentLength'', IntValue (ContentLength r)) @
     omitempty (TransferEncoding r = [])
       (''transferEncoding'', StringsValue (TransferEncoding r)) @
     omitempty (Host r = []) (''host'', StringValue (Host r)) @
     omitempty (Trailer r = []) (''trailer'', HeaderValue (Trailer r)) @
     [(''remoteAddr'', StringValue (RemoteAddr r))] @
     [(''requestURI'', StringValue (RequestURI r))]"

definition member_names :: "'u LoggableRequest \<Rightarrow> string list" where
  "member_names r = map fst (json_members r)"

subsection \<open>Displaying an event\<close>

text \<open>
  Of a \<^verbatim>\<open>cloudevents.Event\<close> the program reads the encoded payload and, through
  the methods of its context, the type and the map of extensions. The context is an
  interface value: \<open>None\<close> is \<^verbatim>\<open>nil\<close>, as in the zero \<^verbatim>\<open>Event\<close>, and a method
  call on it panics. A Go map is \<^verbatim>\<open>nil\<close> (\<open>None\<close>) or holds entries, listed here in
  the order \<^verbatim>\<open>json.Marshal\<close> writes them (sorted by key).
\<close>

record 'v event_context =
  GetType :: string
  GetExtensions :: "(string \<times> 'v) list option"

record 'v event =
  Context :: "'v event_context option"
  DataEncoded :: string

datatype panic = NilDereference

text \<open>
  \<^verbatim>\<open>json.Marshal\<close> on a map: \<^verbatim>\<open>null\<close> for the \<^verbatim>\<open>nil\<close> map, otherwise the
  members between braces, separated by commas, each the quoted key, a colon and the
  encoding of the value. How a key is quoted and how a value is encoded (or refused)
  are parameters. The first value that is refused ends the encoding with its error.
\<close>

fun marshal_members ::
  "(string \<Rightarrow> string) \<Rightarrow> ('v \<Rightarrow> error + string) \<Rightarrow> (string \<times> 'v) list \<Rightarrow> error + string list" where
  "marshal_members quote enc [] = Inr []"
| "marshal_members quote enc ((k, v) # kvs) =
     (case enc v of
        Inl e \<Rightarrow> Inl e
      | Inr s \<Rightarrow>
          (case marshal_members quote enc kvs of
             Inl e \<Rightarrow> Inl e
           | Inr ss \<Rightarrow> Inr ((quote k @ '':'' @ s) # ss)))"

fun join_commas :: "string list \<Rightarrow> string" where
  "join_commas [] = []"
| "join_commas [s] = s"
| "join_commas (s # t # ss) = s @ '','' @ join_commas (t # ss)"

definition json_Marshal ::
  "(string \<Rightarrow> string) \<Rightarrow> ('v \<Rightarrow> error + string) \<Rightarrow> (string \<times> 'v) list option \<Rightarrow> error + string" where
  "json_Marshal quote enc m =
     (case m of
        None \<Rightarrow> Inr ''null''
      | Some kvs \<Rightarrow>
          (case marshal_members quote enc kvs of
             Inl e \<Rightarrow> Inl e
           | Inr ss \<Rightarrow> Inr (''{'' @ join_commas ss @ ''}'')))"

text \<open>
  \<^verbatim>\<open>display\<close> drops the error of \<^verbatim>\<open>json.Marshal\<close>; the byte slice is
  \<^verbatim>\<open>nil\<close> then and prints as the empty string. The state is the list of log
  entries. On an event without a context the first method call panics, before anything
  is logged.
\<close>

definition display ::
  "(string \<Rightarrow> string) \<Rightarrow> ('v \<Rightarrow> error + string) \<Rightarrow> 'v event \<Rightarrow> string list \<Rightarrow>
   panic + string list" where
  "display quote enc event lg =
     (case Context event of
        None \<Rightarrow> Inl NilDereference
      | Some ctx \<Rightarrow>
          (let jsonstr = (case json_Marshal quote enc (GetExtensions ctx) of
                            Inl e \<Rightarrow> []
                          | Inr s \<Rightarrow> s)
           in Inr (lg @ [''{\"data\": '' @ DataEncoded event @ '', \"type\": '' @ GetType ctx @
                         '', \"extensions\": '' @ jsonstr @ ''}''])))"

text \<open>
  The lines an entry takes in the log: \<^verbatim>\<open>log.Printf\<close> writes the formatted text
  and, unless the text ends in one, a line feed; every line feed written ends a line.
\<close>

definition LF :: char where
  "LF = CHR 0x0A"

definition lines_written :: "string \<Rightarrow> nat" where
  "lines_written s =
     length (filter (\<lambda>c. c = LF) (if s = [] \<or> last s \<noteq> LF then s @ [LF] else s))"

subsection \<open>JSON texts\<close>

text \<open>
  The grammar of RFC 8259 on byte strings, without insignificant white space (the form
  \<^verbatim>\<open>json.Marshal\<close> emits): inside a string a byte from 0x20 to 0x7F other than the
  quotation mark and the backslash, a well-formed UTF-8 sequence of two to four bytes,
  or an escape.
\<close>

definition digit :: "char \<Rightarrow> bool" where
  "digit c = (c \<in> set ''0123456789'')"

definition hex_digit :: "char \<Rightarrow> bool" where
  "hex_digit c = (c \<in> set ''0123456789abcdefABCDEF'')"

definition continuation :: "nat \<Rightarrow> bool" where
  "continuation b = (0x80 \<le> b \<and> b \<le> 0xBF)"

definition utf8_seq :: "string \<Rightarrow> bool" where
  "utf8_seq u =
     (case map of_char u of
        [a, b] \<Rightarrow> 0xC2 \<le> a \<and> a \<le> 0xDF \<and> continuation b
      | [a, b, c] \<Rightarrow>
          (a = 0xE0 \<and> 0xA0 \<le> b \<and> b \<le> 0xBF \<or>
           0xE1 \<le> a \<and> a \<le> 0xEC \<and> continuation b \<or>
           a = 0xED \<and> 0x80 \<le> b \<and> b \<le> 0x9F \<or>
           0xEE \<le> a \<and> a \<le> 0xEF \<and> continuation b) \<and> continuation c
      | [a, b, c, d] \<Rightarrow>
          (a = 0xF0 \<and> 0x90 \<le> b \<and> b \<le> 0xBF \<or>
           0xF1 \<le> a \<and> a \<le> 0xF3 \<and> continuation b \<or>
           a = 0xF4 \<and> 0x80 \<le> b \<and> b \<le> 0x8F) \<and> continuation c \<and> continuation d
      | _ \<Rightarrow> False)"

inductive json_chars :: "string \<Rightarrow> bool" where
  no_chars: "json_chars []"
| plain: "0x20 \<le> (of_char c :: nat) \<Longrightarrow> (of_char c :: nat) < 0x80 \<Longrightarrow> c \<noteq> CHR 0x22 \<Longrightarrow>
     c \<noteq> CHR 0x5C \<Longrightarrow> json_chars s \<Longrightarrow> json_chars (c # s)"
| utf8: "utf8_seq u \<Longrightarrow> json_chars s \<Longrightarrow> json_chars (u @ s)"
| escape: "e \<in> set [CHR 0x22, CHR 0x5C, CHR ''/'', CHR ''b'', CHR ''f'', CHR ''n'', CHR ''r'',
     CHR ''t''] \<Longrightarrow> json_chars s \<Longrightarrow> json_chars (CHR 0x5C # e # s)"
| unicode: "hex_digit a \<Longrightarrow> hex_digit b \<Longrightarrow> hex_digit c \<Longrightarrow> hex_digit d \<Longrightarrow> json_chars s \<Longrightarrow>
     json_chars (CHR 0x5C # CHR ''u'' # a # b # c # d # s)"

definition json_string :: "string \<Rightarrow> bool" where
  "json_string s = (\<exists>t. s = CHR 0x22 # t @ [CHR 0x22] \<and> json_chars t)"

definition digits :: "string \<Rightarrow> bool" where
  "digits ds = (ds \<noteq> [] \<and> list_all digit ds)"

definition json_int :: "string \<Rightarrow> bool" where
  "json_int i = (i = ''0'' \<or> digits i \<and> hd i \<noteq> CHR ''0'')"

definition json_frac :: "string \<Rightarrow> bool" where
  "json_frac f = (f = [] \<or> (\<exists>ds. f = CHR ''.'' # ds \<and> digits ds))"

definition json_exp :: "string \<Rightarrow> bool" where
  "json_exp x =
     (x = [] \<or>
      (\<exists>e sign ds. x = e # sign @ ds \<and> e \<in> set ''eE'' \<and> sign \<in> set [[], ''+'', ''-''] \<and>
         digits ds))"

definition json_number :: "string \<Rightarrow> bool" where
  "json_number s =
     (\<exists>sign i f x. s = sign @ i @ f @ x \<and> sign \<in> set [[], ''-''] \<and> json_int i \<and>
        json_frac f \<and> json_exp x)"

inductive json_value :: "string \<Rightarrow> bool" where
  null: "json_value ''null''"
| true: "json_value ''true''"
| false: "json_value ''false''"
| number: "json_number s \<Longrightarrow> json_value s"
| string: "json_string s \<Longrightarrow> json_value s"
| array: "(\<forall>v \<in> set vs. json_value v) \<Longrightarrow> json_value (''['' @ join_commas vs @ '']'')"
| object: "(\<forall>m \<in> set ms. json_string (fst m) \<and> json_value (snd m)) \<Longrightarrow>
     json_value (''{'' @ join_commas (map (\<lambda>m. fst m @ '':'' @ snd m) ms) @ ''}'')"

subsection \<open>Startup\<close>

definition ParseBool :: "string \<Rightarrow> error + bool" where
  "ParseBool s =
     (if s \<in> set [''1'', ''t'', ''T'', ''TRUE'', ''true'', ''True''] then Inr True
      else if s \<in> set [''0'', ''f'', ''F'', ''FALSE'', ''false'', ''False''] then Inr False
      else Inl (Error ''invalid syntax''))"

text \<open>
  Modelled from the spec: \<^verbatim>\<open>config.JSONToTracingConfig\<close> belongs to a library and is
  not in the source. The spec: the tracing configuration is "parsed from an
  environment-supplied JSON blob; if parsing fails, a no-op configuration is substituted".
  The parser and the no-op configuration are parameters; like the Go function it returns
  a configuration and an error.
\<close>

definition JSONToTracingConfig ::
  "(string \<Rightarrow> error + 'cfg) \<Rightarrow> 'cfg \<Rightarrow> string \<Rightarrow> 'cfg \<times> error option" where
  "JSONToTracingConfig parse NoopConfig jsonCfg =
     (case parse jsonCfg of
        Inl e \<Rightarrow> (NoopConfig, Some e)
      | Inr c \<Rightarrow> (c, None))"

text \<open>
  How \<^verbatim>\<open>run\<close> ends: \<^verbatim>\<open>log.Fatal\<close> and \<^verbatim>\<open>log.Fatalf\<close> write their entry
  and leave the process with status 1, without running deferred calls; the receiver
  may serve without ever returning; or \<^verbatim>\<open>run\<close> returns.
\<close>

datatype ending = Exit nat | Serving | Returned

record run_result =
  entries :: "string list"
  receiver_started :: bool
  tracer_shut_down :: bool
  ending :: ending

text \<open>
  The environment and the library calls of \<^verbatim>\<open>run\<close> are parameters:
  \<^verbatim>\<open>client.NewClientHTTP\<close> on the list of middlewares, the parser and the no-op
  configuration of the tracing library, \<^verbatim>\<open>tracing.SetupPublishingWithStaticConfig\<close>,
  and \<^verbatim>\<open>StartReceiver\<close> on the client and the display function, which never
  returns (\<open>None\<close>) or returns \<^verbatim>\<open>nil\<close> or an error.
\<close>

definition request_logging_notice :: string where
  "request_logging_notice =
     ''Request logging enabled, request logging is not recommended for production since it might log sensitive information''"

definition requestLoggingEnabled :: "(string \<Rightarrow> string) \<Rightarrow> bool" where
  "requestLoggingEnabled Getenv =
     (case ParseBool (Getenv ''REQUEST_LOGGING_ENABLED'') of
        Inl e \<Rightarrow> False
      | Inr b \<Rightarrow> b)"

definition middlewares ::
  "('u LoggableRequest \<Rightarrow> error + string) \<Rightarrow> bool \<Rightarrow> ('u handler \<Rightarrow> 'u handler) list" where
  "middlewares MarshalIndent enabled =
     [healthzMiddleware, requestLoggingMiddleware MarshalIndent enabled]"

definition run ::
  "(string \<Rightarrow> string) \<Rightarrow>
   ('u LoggableRequest \<Rightarrow> error + string) \<Rightarrow>
   (('u handler \<Rightarrow> 'u handler) list \<Rightarrow> error + 'c) \<Rightarrow>
   (string \<Rightarrow> error + 'cfg) \<Rightarrow> 'cfg \<Rightarrow>
   ('cfg \<Rightarrow> error + 't) \<Rightarrow>
   ('c \<Rightarrow> 'd \<Rightarrow> error option option) \<Rightarrow> 'd \<Rightarrow>
   string list \<Rightarrow> run_result" where
  "run Getenv MarshalIndent NewClientHTTP parse NoopConfig SetupPublishing StartReceiver
       display_fn lg =
     (let lg1 = (if requestLoggingEnabled Getenv then lg @ [request_logging_notice] else lg)
      in case NewClientHTTP (middlewares MarshalIndent (requestLoggingEnabled Getenv)) of
           Inl e \<Rightarrow>
             \<lparr>entries = lg1 @ [''Failed to create client: '' @ error_text e],
              receiver_started = False, tracer_shut_down = False, ending = Exit 1\<rparr>
         | Inr c \<Rightarrow>
             (let (conf, err) = JSONToTracingConfig parse NoopConfig (Getenv ''K_CONFIG_TRACING'');
                  lg2 = (case err of
                           Some e \<Rightarrow>
                             lg1 @ [''Failed to read tracing config, using the no-op default: '' @
                                    error_text e]
                         | None \<Rightarrow> lg1)
              in case SetupPublishing conf of
                   Inl e \<Rightarrow>
                     \<lparr>entries = lg2 @ [''Failed to initialize tracing: '' @ error_text e],
                      receiver_started = False, tracer_shut_down = False, ending = Exit 1\<rparr>
                 | Inr tracer \<Rightarrow>
                     (case StartReceiver c display_fn of
                        None \<Rightarrow>
                          \<lparr>entries = lg2, receiver_started = True, tracer_shut_down = False,
                           ending = Serving\<rparr>
                      | Some (Some e) \<Rightarrow>
                          \<lparr>entries = lg2 @ [''Error during receiver's runtime: '' @ error_text e],
                           receiver_started = True, tracer_shut_down = False, ending = Exit 1\<rparr>
                      | Some None \<Rightarrow>
                          \<lparr>entries = lg2, receiver_started = True, tracer_shut_down = True,
                           ending = Returned\<rparr>)))"

subsection \<open>Sample values\<close>

definition idle_stream :: stream where
  "idle_stream = \<lparr>pending = [], fault = None, closed = False, trailers = []\<rparr>"

definition sample_world :: "string \<Rightarrow> error option \<Rightarrow> world" where
  "sample_world bs f =
     \<lparr>streams = (\<lambda>a. idle_stream)
        (0 := \<lparr>pending = bs, fault = f, closed = False, trailers = []\<rparr>),
      next_stream = 1, logged = [], rw = []\<rparr>"

definition chunked_world :: world where
  "chunked_world =
     \<lparr>streams = (\<lambda>a. idle_stream)
        (0 := \<lparr>pending = ''{}'', fault = None, closed = False,
               trailers = [(''X-Checksum'', [''9f2c''])]\<rparr>),
      next_stream = 1, logged = [], rw = []\<rparr>"

definition sample_request :: "string \<Rightarrow> string \<Rightarrow> unit request" where
  "sample_request m uri =
     \<lparr>req_Method = m, req_URL = Some (), req_Proto = ''HTTP/1.1'', req_ProtoMajor = 1,
      req_ProtoMinor = 1, req_Header = [(''Content-Type'', [''application/json''])],
      req_Body = 0, req_ContentLength = 2, req_TransferEncoding = [],
      req_Host = ''sink.example'', req_Trailer = [], req_RemoteAddr = ''10.0.0.7:4711'',
      req_RequestURI = uri\<rparr>"

definition chunked_request :: "unit request" where
  "chunked_request =
     (sample_request ''POST'' ''/'')
       \<lparr>req_ContentLength := - 1, req_TransferEncoding := [''chunked''],
        req_Trailer := [(''X-Checksum'', [])]\<rparr>"

definition base_handler :: "unit handler" where
  "base_handler req w = Println (''base '' @ fst (fst (ReadAll req w))) w"

definition zero_snapshot :: "unit LoggableRequest" where
  "zero_snapshot =
     \<lparr>Method = [], URL = None, Proto = [], ProtoMajor = 0, ProtoMinor = 0, Header = [],
      Body = [], ContentLength = 0, TransferEncoding = [], Host = [], Trailer = [],
      RemoteAddr = [], RequestURI = []\<rparr>"

datatype sample_value = Flag bool | Unsupported

fun sample_enc :: "sample_value \<Rightarrow> error + string" where
  "sample_enc (Flag b) = Inr (if b then ''true'' else ''false'')"
| "sample_enc Unsupported = Inl (Error ''json: unsupported type: chan int'')"

definition sample_quote :: "string \<Rightarrow> string" where
  "sample_quote k = ''\"'' @ k @ ''\"''"

definition sample_event ::
  "string \<Rightarrow> (string \<times> sample_value) list option \<Rightarrow> sample_value event" where
  "sample_event payload exts =
     \<lparr>Context = Some \<lparr>GetType = ''sample.created'', GetExtensions = exts\<rparr>,
      DataEncoded = payload\<rparr>"

definition sample_getenv :: "string \<Rightarrow> string" where
  "sample_getenv k = (if k = ''K_CONFIG_TRACING'' then ''{not json'' else [])"

definition sample_parse :: "string \<Rightarrow> error + string" where
  "sample_parse s = (if s = ''{}'' then Inr ''configured'' else Inl (Error ''invalid character''))"

definition sample_client :: "(unit handler \<Rightarrow> unit handler) list \<Rightarrow> error + nat" where
  "sample_client ms = Inr (length ms)"

section \<open>The health endpoint answers probes and nothing else\<close>

text \<open>
  C2. A request whose request target is exactly \<^verbatim>\<open>/healthz\<close> gets one
  \<^verbatim>\<open>WriteHeader(204)\<close> call on its response writer and nothing else happens: the
  result does not depend on the next handler, the log and the streams are untouched, and
  for a response nobody has written to yet the client receives status 204 with an empty
  body. Method and body play no role. Any other request target hands the request and the
  world to the next handler as they are, and the result is the next handler's.
\<close>

theorem healthz_probe_or_pass:
  "(req_RequestURI req = healthzPath \<longrightarrow>
      healthzMiddleware next req w = w\<lparr>rw := rw w @ [WriteHeader 204]\<rparr> \<and>
      healthzMiddleware next req w = healthzMiddleware next' req w \<and>
      logged (healthzMiddleware next req w) = logged w \<and>
      streams (healthzMiddleware next req w) = streams w \<and>
      (rw w = [] \<longrightarrow>
         response_status (rw (healthzMiddleware next req w)) = Some 204 \<and>
         response_body (rw (healthzMiddleware next req w)) = [])) \<and>
   (req_RequestURI req \<noteq> healthzPath \<longrightarrow> healthzMiddleware next req w = next req w)"
  by (simp add: healthzMiddleware_def StatusNoContent_def)

theorem healthz_probe_or_pass_witness:
  "req_RequestURI (sample_request ''DELETE'' ''/healthz'') = healthzPath \<and>
   healthzMiddleware base_handler (sample_request ''DELETE'' ''/healthz'')
       (sample_world ''{}'' None)
     = (sample_world ''{}'' None)\<lparr>rw := [WriteHeader 204]\<rparr> \<and>
   response_status (rw (healthzMiddleware base_handler (sample_request ''DELETE'' ''/healthz'')
       (sample_world ''{}'' None))) = Some 204 \<and>
   response_body (rw (healthzMiddleware base_handler (sample_request ''DELETE'' ''/healthz'')
       (sample_world ''{}'' None))) = [] \<and>
   req_RequestURI (sample_request ''POST'' ''/'') \<noteq> healthzPath \<and>
   logged (healthzMiddleware base_handler (sample_request ''POST'' ''/'')
       (sample_world ''{}'' None)) = [''base {}'']"
  using healthz_probe_or_pass [of "sample_request ''DELETE'' ''/healthz''" base_handler
          "sample_world ''{}'' None" base_handler]
        healthz_probe_or_pass [of "sample_request ''POST'' ''/''" base_handler
          "sample_world ''{}'' None" base_handler]
  by (simp add: sample_request_def sample_world_def healthzPath_def base_handler_def
        Println_def ReadAll_def)

text \<open>
  C9. The comparison is equality of strings on the whole request target: a request
  target that continues after \<^verbatim>\<open>/healthz\<close>, with a query string or a trailing slash
  or anything else, is not a probe. It gets no 204 from the filter; the next handler
  answers it.
\<close>

theorem healthz_longer_target_passes:
  "s \<noteq> [] \<Longrightarrow> req_RequestURI req = healthzPath @ s \<Longrightarrow>
     healthzMiddleware next req w = next req w"
  by (simp add: healthzMiddleware_def)

theorem healthz_longer_target_passes_witness:
  "healthzMiddleware base_handler (sample_request ''GET'' ''/healthz?probe=1'')
       (sample_world [] None)
     = base_handler (sample_request ''GET'' ''/healthz?probe=1'') (sample_world [] None) \<and>
   healthzMiddleware base_handler (sample_request ''GET'' ''/healthz/'') (sample_world [] None)
     = base_handler (sample_request ''GET'' ''/healthz/'') (sample_world [] None) \<and>
   rw (healthzMiddleware base_handler (sample_request ''GET'' ''/healthz?probe=1'')
       (sample_world [] None)) = []"
proof -
  have query: "req_RequestURI (sample_request ''GET'' ''/healthz?probe=1'') = healthzPath @ ''?probe=1''"
    by (simp add: sample_request_def healthzPath_def)
  have slash: "req_RequestURI (sample_request ''GET'' ''/healthz/'') = healthzPath @ ''/''"
    by (simp add: sample_request_def healthzPath_def)
  have "rw (base_handler (sample_request ''GET'' ''/healthz?probe=1'') (sample_world [] None)) = []"
    by (simp add: base_handler_def Println_def sample_world_def)
  then show ?thesis
    using healthz_longer_target_passes [OF _ query, of base_handler "sample_world [] None"]
          healthz_longer_target_passes [OF _ slash, of base_handler "sample_world [] None"]
    by simp
qed

section \<open>Request logging\<close>

text \<open>
  C3. With request logging disabled the middleware is the identity on handlers: the
  handler it returns behaves as the next handler does on every request and every world,
  so it writes no snapshot to the log and the next handler gets the request with its body
  as it came.
\<close>

theorem logging_disabled_is_identity:
  "requestLoggingMiddleware MarshalIndent False next = next \<and>
   requestLoggingMiddleware MarshalIndent False = id"
proof -
  have "requestLoggingMiddleware MarshalIndent False next' = next'" for next' :: "'a handler"
    by (intro ext) (simp add: requestLoggingMiddleware_def)
  then show ?thesis
    by (auto simp: fun_eq_iff)
qed

lemma mergeSetHeader_Nil [simp]: "mergeSetHeader t [] = t"
  by (simp add: mergeSetHeader_def)

lemma toReq_parts:
  "toReq req w =
     (\<lparr>Method = req_Method req, URL = req_URL req, Proto = req_Proto req,
       ProtoMajor = req_ProtoMajor req, ProtoMinor = req_ProtoMinor req,
       Header = req_Header req, Body = pending (streams w (req_Body req)),
       ContentLength = req_ContentLength req, TransferEncoding = req_TransferEncoding req,
       Host = req_Host req,
       Trailer = trailer_after_read (req_Trailer req) (streams w (req_Body req)),
       RemoteAddr = req_RemoteAddr req, RequestURI = req_RequestURI req\<rparr>,
      req\<lparr>req_Trailer := trailer_after_read (req_Trailer req) (streams w (req_Body req)),
          req_Body := next_stream w\<rparr>,
      w\<lparr>streams := (streams w)
           (req_Body req :=
              (streams w (req_Body req))\<lparr>pending := [], trailers := [], closed := True\<rparr>,
            next_stream w :=
              \<lparr>pending = pending (streams w (req_Body req)), fault = None, closed = False,
               trailers = []\<rparr>),
        next_stream := Suc (next_stream w),
        logged := logged w @
          (case fault (streams w (req_Body req)) of
             None \<Rightarrow> []
           | Some e \<Rightarrow> [''failed to read request body''])\<rparr>)"
  by (simp add: toReq_def ReadAll_def Close_def NopCloser_NewBuffer_def Println_def Let_def
        split: option.split)

lemma logRequest_parts:
  "logRequest MarshalIndent req w =
     (fst (snd (toReq req w)),
      (snd (snd (toReq req w)))
        \<lparr>logged := logged (snd (snd (toReq req w))) @
           (case MarshalIndent (fst (toReq req w)) of
              Inl e \<Rightarrow> [''failed to marshal request '' @ error_text e, []]
            | Inr s \<Rightarrow> [s])\<rparr>)"
  by (simp add: logRequest_def Println_def Let_def split_beta split: sum.split)

text \<open>
  C4. With request logging enabled the middleware reads the whole body: the read returns
  every byte the stream delivers, and the stream the request held is left drained and
  closed. It captures the snapshot: all thirteen fields, the body as the bytes read, and
  the serialized snapshot is the last entry of the log. It replaces the body by a stream
  that was not allocated before, over exactly those bytes, and calls the next handler
  with that request: reading the new body to its end gives the bytes the original
  stream delivered. The bytes are the same; an error that ended the original read is not
  repeated by the new stream.
\<close>

theorem logging_enabled_body_round_trip:
  "requestLoggingMiddleware MarshalIndent True next req w =
     next (fst (logRequest MarshalIndent req w)) (snd (logRequest MarshalIndent req w)) \<and>
   fst (ReadAll req w) =
     (pending (streams w (req_Body req)), fault (streams w (req_Body req))) \<and>
   (req_Body req < next_stream w \<longrightarrow>
      streams (snd (logRequest MarshalIndent req w)) (req_Body req) =
        (streams w (req_Body req))\<lparr>pending := [], trailers := [], closed := True\<rparr> \<and>
      req_Body (fst (logRequest MarshalIndent req w)) \<noteq> req_Body req) \<and>
   fst (toReq req w) =
     \<lparr>Method = req_Method req, URL = req_URL req, Proto = req_Proto req,
      ProtoMajor = req_ProtoMajor req, ProtoMinor = req_ProtoMinor req,
      Header = req_Header req, Body = pending (streams w (req_Body req)),
      ContentLength = req_ContentLength req, TransferEncoding = req_TransferEncoding req,
      Host = req_Host req,
      Trailer = trailer_after_read (req_Trailer req) (streams w (req_Body req)),
      RemoteAddr = req_RemoteAddr req, RequestURI = req_RequestURI req\<rparr> \<and>
   (\<forall>t. MarshalIndent (fst (toReq req w)) = Inr t \<longrightarrow>
      last (logged (snd (logRequest MarshalIndent req w))) = t) \<and>
   fst (logRequest MarshalIndent req w) =
     req\<lparr>req_Trailer := trailer_after_read (req_Trailer req) (streams w (req_Body req)),
         req_Body := next_stream w\<rparr> \<and>
   next_stream (snd (logRequest MarshalIndent req w)) = Suc (next_stream w) \<and>
   streams (snd (logRequest MarshalIndent req w)) (next_stream w) =
     \<lparr>pending = pending (streams w (req_Body req)), fault = None, closed = False,
      trailers = []\<rparr> \<and>
   fst (ReadAll (fst (logRequest MarshalIndent req w)) (snd (logRequest MarshalIndent req w)))
     = (pending (streams w (req_Body req)), None)"
  by (simp add: requestLoggingMiddleware_def split_beta logRequest_parts toReq_parts
        ReadAll_def Let_def)

theorem logging_enabled_body_round_trip_witness:
  "req_Body (sample_request ''POST'' ''/'') < next_stream (sample_world ''{ab}'' None) \<and>
   requestLoggingMiddleware (\<lambda>lr. Inr (Method lr @ '' '' @ Body lr)) True base_handler
       (sample_request ''POST'' ''/'') (sample_world ''{ab}'' None)
     = \<lparr>streams = (\<lambda>a. idle_stream)
          (0 := \<lparr>pending = [], fault = None, closed = True, trailers = []\<rparr>,
           1 := \<lparr>pending = ''{ab}'', fault = None, closed = False, trailers = []\<rparr>),
        next_stream = 2, logged = [''POST {ab}'', ''base {ab}''], rw = []\<rparr>"
  using logging_enabled_body_round_trip [of "\<lambda>lr. Inr (Method lr @ '' '' @ Body lr)"
          base_handler "sample_request ''POST'' ''/''" "sample_world ''{ab}'' None"]
  by (simp add: logRequest_parts toReq_parts sample_request_def sample_world_def
        base_handler_def Println_def ReadAll_def idle_stream_def trailer_after_read_def)

text \<open>
  C5. With request logging enabled, a body whose read ends in an error and a snapshot
  that cannot be serialized each leave one warning in the log, and neither stops the
  request: the next handler is called all the same, with the request whose body is the
  new stream over the bytes that were read. After a serialization failure the entry that
  would hold the snapshot is empty.
\<close>

theorem logging_failures_do_not_abort:
  "requestLoggingMiddleware MarshalIndent True next req w =
     next (req\<lparr>req_Trailer := trailer_after_read (req_Trailer req) (streams w (req_Body req)),
               req_Body := next_stream w\<rparr>)
          (snd (logRequest MarshalIndent req w)) \<and>
   (fault (streams w (req_Body req)) \<noteq> None \<longrightarrow>
      requestLoggingMiddleware MarshalIndent True next req w =
        next (req\<lparr>req_Body := next_stream w\<rparr>) (snd (logRequest MarshalIndent req w))) \<and>
   logged (snd (logRequest MarshalIndent req w)) =
     logged w @
     (case fault (streams w (req_Body req)) of
        None \<Rightarrow> []
      | Some e \<Rightarrow> [''failed to read request body'']) @
     (case MarshalIndent (fst (toReq req w)) of
        Inl e \<Rightarrow> [''failed to marshal request '' @ error_text e, []]
      | Inr s \<Rightarrow> [s]) \<and>
   streams (snd (logRequest MarshalIndent req w)) (next_stream w) =
     \<lparr>pending = pending (streams w (req_Body req)), fault = None, closed = False,
      trailers = []\<rparr> \<and>
   rw (snd (logRequest MarshalIndent req w)) = rw w"
  by (auto simp: requestLoggingMiddleware_def split_beta logRequest_parts toReq_parts
        trailer_after_read_def)

theorem logging_failures_do_not_abort_witness:
  "fault (streams (sample_world ''{ab'' (Some (Error ''unexpected EOF''))) 0) \<noteq> None \<and>
   logged (requestLoggingMiddleware (\<lambda>lr. Inl (Error ''unsupported value'')) True base_handler
             (sample_request ''POST'' ''/'') (sample_world ''{ab'' (Some (Error ''unexpected EOF''))))
     = [''failed to read request body'', ''failed to marshal request unsupported value'', [],
        ''base {ab'']"
  using logging_failures_do_not_abort [of "\<lambda>lr. Inl (Error ''unsupported value'')" base_handler
          "sample_request ''POST'' ''/''" "sample_world ''{ab'' (Some (Error ''unexpected EOF''))"]
  by (simp add: sample_request_def sample_world_def base_handler_def Println_def ReadAll_def
        idle_stream_def)

text \<open>
  A chunked request that announces a trailer: before the read the trailer field of the
  request holds the name without a value, after \<^verbatim>\<open>toReq\<close> it holds the value that
  followed the body, and so does the snapshot.
\<close>

theorem toReq_fills_trailer:
  "req_Trailer chunked_request = [(''X-Checksum'', [])] \<and>
   req_Trailer (fst (snd (toReq chunked_request chunked_world)))
     = [(''X-Checksum'', [''9f2c''])] \<and>
   Trailer (fst (toReq chunked_request chunked_world)) = [(''X-Checksum'', [''9f2c''])] \<and>
   fst (snd (toReq chunked_request chunked_world)) \<noteq> chunked_request\<lparr>req_Body := 1\<rparr>"
  by (simp add: toReq_parts chunked_request_def chunked_world_def sample_request_def
        trailer_after_read_def mergeSetHeader_def)

text \<open>
  C10, amended. \<^verbatim>\<open>toReq\<close> changes the body of the request and, through the read,
  its trailer: the request it leaves is the request it got with the body pointing to a
  stream that was not allocated before and with the trailer fields that followed a body
  read to its end merged into the trailer. When the read ended in an error, or no trailer
  followed the body, the body is the only field that changes. The new stream holds
  exactly the bytes the read returned (all that arrived, when the read failed partway),
  carries no error and is open; the snapshot's body is the same bytes and its trailer is
  the request's trailer after the read. The stream the request held before is drained
  and closed, every other stream is as it was, and nothing is written to the response.
\<close>

theorem toReq_changes_body_and_trailer:
  "fst (snd (toReq req w)) =
     req\<lparr>req_Trailer := trailer_after_read (req_Trailer req) (streams w (req_Body req)),
         req_Body := next_stream w\<rparr> \<and>
   (fault (streams w (req_Body req)) \<noteq> None \<or> trailers (streams w (req_Body req)) = [] \<longrightarrow>
      fst (snd (toReq req w)) = req\<lparr>req_Body := next_stream w\<rparr>) \<and>
   streams (snd (snd (toReq req w))) (req_Body (fst (snd (toReq req w)))) =
     \<lparr>pending = pending (streams w (req_Body req)), fault = None, closed = False,
      trailers = []\<rparr> \<and>
   Body (fst (toReq req w)) =
     pending (streams (snd (snd (toReq req w))) (req_Body (fst (snd (toReq req w))))) \<and>
   Trailer (fst (toReq req w)) = req_Trailer (fst (snd (toReq req w))) \<and>
   (req_Body req < next_stream w \<longrightarrow>
      req_Body (fst (snd (toReq req w))) \<noteq> req_Body req \<and>
      streams (snd (snd (toReq req w))) (req_Body req) =
        (streams w (req_Body req))\<lparr>pending := [], trailers := [], closed := True\<rparr>) \<and>
   (\<forall>a. a \<noteq> req_Body req \<longrightarrow> a \<noteq> next_stream w \<longrightarrow>
      streams (snd (snd (toReq req w))) a = streams w a) \<and>
   rw (snd (snd (toReq req w))) = rw w"
  by (auto simp: toReq_parts trailer_after_read_def split: option.splits)

theorem toReq_changes_body_and_trailer_witness:
  "req_Body (sample_request ''POST'' ''/'')
     < next_stream (sample_world ''par'' (Some (Error ''reset''))) \<and>
   fault (streams (sample_world ''par'' (Some (Error ''reset''))) 0) \<noteq> None \<and>
   fst (snd (toReq (sample_request ''POST'' ''/'') (sample_world ''par'' (Some (Error ''reset'')))))
     = (sample_request ''POST'' ''/'')\<lparr>req_Body := 1\<rparr> \<and>
   Body (fst (toReq (sample_request ''POST'' ''/'') (sample_world ''par'' (Some (Error ''reset'')))))
     = ''par'' \<and>
   streams (snd (snd (toReq (sample_request ''POST'' ''/'')
       (sample_world ''par'' (Some (Error ''reset'')))))) 1
     = \<lparr>pending = ''par'', fault = None, closed = False, trailers = []\<rparr> \<and>
   streams (snd (snd (toReq (sample_request ''POST'' ''/'')
       (sample_world ''par'' (Some (Error ''reset'')))))) 0
     = \<lparr>pending = [], fault = Some (Error ''reset''), closed = True, trailers = []\<rparr> \<and>
   streams (snd (snd (toReq (sample_request ''POST'' ''/'')
       (sample_world ''par'' (Some (Error ''reset'')))))) 2
     = idle_stream \<and>
   fst (snd (toReq chunked_request chunked_world))
     = chunked_request\<lparr>req_Trailer := [(''X-Checksum'', [''9f2c''])], req_Body := 1\<rparr>"
  using toReq_changes_body_and_trailer [of "sample_request ''POST'' ''/''"
          "sample_world ''par'' (Some (Error ''reset''))"]
        toReq_changes_body_and_trailer [of chunked_request chunked_world]
  by (simp add: toReq_parts sample_request_def sample_world_def idle_stream_def
        chunked_request_def chunked_world_def trailer_after_read_def mergeSetHeader_def)

subsection \<open>The order of the two middlewares\<close>

text \<open>
  \<^verbatim>\<open>run\<close> hands the list of the two middlewares, the health filter first, to
  \<^verbatim>\<open>client.NewClientHTTP\<close>; the library wraps them around its own handler. What a
  probe costs depends on which of the two ends up outside, so both orders are worked out:
  with the filter outside a probe never reaches the logger, with the logger outside the
  probe's body is read and its snapshot is logged before the filter answers.
\<close>

lemma filter_outside_probe_not_logged:
  "req_RequestURI req = healthzPath \<Longrightarrow>
     healthzMiddleware (requestLoggingMiddleware MarshalIndent True base) req w
       = w\<lparr>rw := rw w @ [WriteHeader 204]\<rparr>"
  by (simp add: healthzMiddleware_def StatusNoContent_def)

lemma logger_outside_probe_logged:
  "req_RequestURI req = healthzPath \<Longrightarrow>
     requestLoggingMiddleware MarshalIndent True (healthzMiddleware base) req w
       = (snd (logRequest MarshalIndent req w))
           \<lparr>rw := rw w @ [WriteHeader 204]\<rparr> \<and>
     length (logged (requestLoggingMiddleware MarshalIndent True (healthzMiddleware base) req w))
       > length (logged w)"
  by (simp add: requestLoggingMiddleware_def healthzMiddleware_def StatusNoContent_def
        split_beta logRequest_parts toReq_parts split: sum.split option.split)

section \<open>The rendered snapshot omits its empty members, two excepted\<close>

lemma omitempty_names [simp]:
  "k \<in> fst ` set (omitempty e (k', v)) \<longleftrightarrow> \<not> e \<and> k = k'"
  by (auto simp: omitempty_def)

text \<open>
  The snapshot of the zero value still renders two members: an empty remote address and
  an empty request target are written, not left out.
\<close>

theorem zero_snapshot_renders_two_members:
  "RemoteAddr zero_snapshot = [] \<and> RequestURI zero_snapshot = [] \<and>
   member_names zero_snapshot = [''remoteAddr'', ''requestURI'']"
  by (simp add: zero_snapshot_def member_names_def json_members_def omitempty_def)

text \<open>
  C7, amended. Each of the eleven members tagged \<^verbatim>\<open>omitempty\<close> is rendered exactly
  when its value is not empty (a non-empty string, slice or map, a number other than 0,
  a pointer other than \<^verbatim>\<open>nil\<close>); the remote address and the request target are
  rendered always, empty or not.
\<close>

theorem omitempty_members:
  "(''method'' \<in> set (member_names r)) = (Method r \<noteq> []) \<and>
   (''URL'' \<in> set (member_names r)) = (URL r \<noteq> None) \<and>
   (''proto'' \<in> set (member_names r)) = (Proto r \<noteq> []) \<and>
   (''protoMajor'' \<in> set (member_names r)) = (ProtoMajor r \<noteq> 0) \<and>
   (''protoMinor'' \<in> set (member_names r)) = (ProtoMinor r \<noteq> 0) \<and>
   (''headers'' \<in> set (member_names r)) = (Header r \<noteq> []) \<and>
   (''body'' \<in> set (member_names r)) = (Body r \<noteq> []) \<and>
   (''contentLength'' \<in> set (member_names r)) = (ContentLength r \<noteq> 0) \<and>
   (''transferEncoding'' \<in> set (member_names r)) = (TransferEncoding r \<noteq> []) \<and>
   (''host'' \<in> set (member_names r)) = (Host r \<noteq> []) \<and>
   (''trailer'' \<in> set (member_names r)) = (Trailer r \<noteq> []) \<and>
   ''remoteAddr'' \<in> set (member_names r) \<and>
   ''requestURI'' \<in> set (member_names r)"
  by (cases "URL r") (simp_all add: member_names_def json_members_def image_Un)

section \<open>Displaying an event\<close>

subsection \<open>What the grammar excludes\<close>

text \<open>
  No JSON text is empty and none holds a line feed: white space is not part of this
  grammar and a control character inside a string is escaped.
\<close>

lemma join_commas_avoids:
  "c \<noteq> CHR '','' \<Longrightarrow> \<forall>s \<in> set ss. c \<notin> set s \<Longrightarrow> c \<notin> set (join_commas ss)"
  by (induction ss rule: join_commas.induct) auto

lemma LF_code [simp]: "(of_char LF :: nat) = 10"
  by (simp add: LF_def)

lemma utf8_seq_high:
  assumes "utf8_seq u" and "c \<in> set u"
  shows "0x80 \<le> (of_char c :: nat)"
proof -
  have "\<forall>b \<in> set (map of_char u). (0x80::nat) \<le> b"
    using assms(1) unfolding utf8_seq_def continuation_def
    by (cases "map of_char u :: nat list" rule: list.exhaust) (auto split: list.splits)
  with assms(2) show ?thesis by auto
qed


lemma hex_digit_not_LF: "hex_digit c \<Longrightarrow> c \<noteq> LF"
  by (auto simp: hex_digit_def LF_def)

lemma digit_not_LF: "digit c \<Longrightarrow> c \<noteq> LF"
  by (auto simp: digit_def LF_def)

lemma json_chars_no_LF: "json_chars s \<Longrightarrow> LF \<notin> set s"
proof (induction rule: json_chars.induct)
  case (utf8 u s)
  have "LF \<notin> set u"
    using utf8_seq_high [OF utf8.hyps(1), of LF] by auto
  with utf8 show ?case by simp
next
  case (plain c s)
  then have "c \<noteq> LF" by auto
  with plain show ?case by simp
next
  case (escape e s)
  then show ?case by (auto simp: LF_def)
next
  case (unicode a b c d s)
  have "CHR 0x5C \<noteq> LF" "CHR ''u'' \<noteq> LF"
    by (simp_all add: LF_def)
  with unicode hex_digit_not_LF [of a] hex_digit_not_LF [of b] hex_digit_not_LF [of c]
    hex_digit_not_LF [of d]
  show ?case by (simp del: LF_code)
qed simp

lemma json_string_no_LF: "json_string s \<Longrightarrow> LF \<notin> set s"
  unfolding json_string_def using json_chars_no_LF by (auto simp: LF_def)

lemma digits_no_LF: "digits ds \<Longrightarrow> LF \<notin> set ds"
  using digit_not_LF by (auto simp: digits_def list_all_iff)


lemma json_number_no_LF:
  assumes "json_number s"
  shows "LF \<notin> set s"
proof -
  from assms obtain sign i f x where s: "s = sign @ i @ f @ x"
    and sign: "sign \<in> set [[], ''-'']" and i: "json_int i" and f: "json_frac f"
    and x: "json_exp x"
    unfolding json_number_def by blast
  have "LF \<notin> set sign" using sign by (auto simp: LF_def)
  moreover have "LF \<notin> set i" using i digits_no_LF by (auto simp: json_int_def LF_def)
  moreover have "LF \<notin> set f" using f digits_no_LF by (auto simp: json_frac_def LF_def)
  moreover have "LF \<notin> set x" using x digits_no_LF by (auto simp: json_exp_def LF_def)
  ultimately show ?thesis by (simp add: s)
qed

lemma json_value_no_LF: "json_value s \<Longrightarrow> LF \<notin> set s"
proof (induction rule: json_value.induct)
  case (number s)
  then show ?case by (rule json_number_no_LF)
next
  case (string s)
  then show ?case by (rule json_string_no_LF)
next
  case (array vs)
  then have "LF \<notin> set (join_commas vs)"
    by (intro join_commas_avoids) (auto simp: LF_def)
  then show ?case by (simp add: LF_def)
next
  case (object ms)
  have "\<forall>s \<in> set (map (\<lambda>m. fst m @ '':'' @ snd m) ms). LF \<notin> set s"
    using object json_string_no_LF by (auto simp: LF_def)
  then have "LF \<notin> set (join_commas (map (\<lambda>m. fst m @ '':'' @ snd m) ms))"
    by (intro join_commas_avoids) (auto simp: LF_def)
  then show ?case by (simp add: LF_def)
qed (simp_all add: LF_def)

lemma json_value_not_empty: "json_value s \<Longrightarrow> s \<noteq> []"
proof (induction rule: json_value.induct)
  case (number s)
  then show ?case by (auto simp: json_number_def json_int_def digits_def)
next
  case (string s)
  then show ?case by (auto simp: json_string_def)
qed simp_all

subsection \<open>The extension map is encoded as a JSON object\<close>

text \<open>
  When every key is quoted to a JSON string and every value that is encoded is encoded to
  a JSON value, what \<^verbatim>\<open>json.Marshal\<close> returns for the map is a JSON value.
\<close>

lemma marshal_members_valid:
  assumes "\<forall>(k, v) \<in> set kvs. json_string (quote k) \<and> (\<forall>s. enc v = Inr s \<longrightarrow> json_value s)"
    and "marshal_members quote enc kvs = Inr ss"
  shows "\<exists>ms. ss = map (\<lambda>m. fst m @ '':'' @ snd m) ms \<and>
           (\<forall>m \<in> set ms. json_string (fst m) \<and> json_value (snd m))"
  using assms
proof (induction kvs arbitrary: ss)
  case Nil
  then show ?case by simp
next
  case (Cons kv kvs)
  obtain k v where kv: "kv = (k, v)" by (cases kv)
  from Cons.prems(2) kv obtain s ss' where s: "enc v = Inr s"
    and ss': "marshal_members quote enc kvs = Inr ss'" and ss: "ss = (quote k @ '':'' @ s) # ss'"
    by (auto split: sum.splits)
  from Cons.prems(1) kv s have head: "json_string (quote k)" "json_value s" by auto
  from Cons.IH [OF _ ss'] Cons.prems(1) obtain ms where
    ms: "ss' = map (\<lambda>m. fst m @ '':'' @ snd m) ms"
      "\<forall>m \<in> set ms. json_string (fst m) \<and> json_value (snd m)"
    by auto
  have "ss = map (\<lambda>m. fst m @ '':'' @ snd m) ((quote k, s) # ms)"
    using ss ms(1) by simp
  moreover have "\<forall>m \<in> set ((quote k, s) # ms). json_string (fst m) \<and> json_value (snd m)"
    using head ms(2) by simp
  ultimately show ?case by blast
qed

lemma json_Marshal_valid:
  assumes "\<forall>kvs k v. m = Some kvs \<and> (k, v) \<in> set kvs \<longrightarrow>
             json_string (quote k) \<and> (\<forall>s. enc v = Inr s \<longrightarrow> json_value s)"
    and "json_Marshal quote enc m = Inr s"
  shows "json_value s"
proof (cases m)
  case None
  with assms(2) show ?thesis by (auto simp: json_Marshal_def intro: json_value.null)
next
  case (Some kvs)
  with assms(2) obtain ss where ss: "marshal_members quote enc kvs = Inr ss"
    and s: "s = ''{'' @ join_commas ss @ ''}''"
    by (auto simp: json_Marshal_def split: sum.splits)
  have "\<forall>(k, v) \<in> set kvs. json_string (quote k) \<and> (\<forall>s. enc v = Inr s \<longrightarrow> json_value s)"
    using assms(1) Some by auto
  from marshal_members_valid [OF this ss] obtain ms where
    "ss = map (\<lambda>m. fst m @ '':'' @ snd m) ms"
    "\<forall>m \<in> set ms. json_string (fst m) \<and> json_value (snd m)"
    by blast
  then show ?thesis unfolding s using json_value.object [of ms] by simp
qed

lemma lines_written_brace:
  "lines_written (s @ ''}'') = Suc (length (filter (\<lambda>c. c = LF) s))"
  by (simp add: lines_written_def LF_def)

subsection \<open>The log record\<close>

lemma display_nil_context_panics:
  "Context event = None \<Longrightarrow> display quote enc event lg = Inl NilDereference"
  by (simp add: display_def)


text \<open>
  An event with a payload of two lines and the \<^verbatim>\<open>nil\<close> map of extensions: its
  record takes two lines of the log, and its extensions are displayed as \<^verbatim>\<open>null\<close>,
  not as \<^verbatim>\<open>{}\<close>.
\<close>

theorem display_nil_extensions_and_line_feed:
  "Context (sample_event (''{'' @ LF # ''\"id\": 2}'') None)
     = Some \<lparr>GetType = ''sample.created'', GetExtensions = None\<rparr> \<and>
   display sample_quote sample_enc (sample_event (''{'' @ LF # ''\"id\": 2}'') None) [] =
     Inr [''{\"data\": {'' @ LF # ''\"id\": 2}, \"type\": sample.created, \"extensions\": null}''] \<and>
   display sample_quote sample_enc (sample_event (''{'' @ LF # ''\"id\": 2}'') None) [] \<noteq>
     Inr [''{\"data\": {'' @ LF # ''\"id\": 2}, \"type\": sample.created, \"extensions\": {}}''] \<and>
   lines_written
     (''{\"data\": {'' @ LF # ''\"id\": 2}, \"type\": sample.created, \"extensions\": null}'') = 2"
  by (simp add: display_def json_Marshal_def sample_event_def lines_written_def LF_def)


text \<open>
  C6, amended. For every event with a context, \<^verbatim>\<open>display\<close> adds exactly one
  record to the log and leaves the earlier ones alone. The record holds the payload bytes
  and the type string as they are and, after them, the text \<^verbatim>\<open>json.Marshal\<close>
  returns for the extension map, which is a valid JSON text: \<^verbatim>\<open>null\<close> for the
  \<^verbatim>\<open>nil\<close> map, \<^verbatim>\<open>{}\<close> for an empty map that is not \<^verbatim>\<open>nil\<close>, an object
  otherwise. When \<^verbatim>\<open>json.Marshal\<close> fails the record is written all the same, with
  nothing in the place of the extensions. The record takes one line of the log, and one
  more for every line feed in the payload and in the type.
\<close>

theorem display_one_record:
  assumes ctx: "Context event = Some ctx"
    and lib: "\<forall>kvs k v. GetExtensions ctx = Some kvs \<and> (k, v) \<in> set kvs \<longrightarrow>
                json_string (quote k) \<and> (\<forall>s. enc v = Inr s \<longrightarrow> json_value s)"
  shows "\<exists>entry ext.
           display quote enc event lg = Inr (lg @ [entry]) \<and>
           entry = ''{\"data\": '' @ DataEncoded event @ '', \"type\": '' @ GetType ctx @
                   '', \"extensions\": '' @ ext @ ''}'' \<and>
           (case json_Marshal quote enc (GetExtensions ctx) of
              Inl e \<Rightarrow> ext = []
            | Inr s \<Rightarrow> ext = s \<and> json_value s) \<and>
           (GetExtensions ctx = None \<longrightarrow> ext = ''null'') \<and>
           (GetExtensions ctx = Some [] \<longrightarrow> ext = ''{}'') \<and>
           lines_written entry =
             Suc (length (filter (\<lambda>c. c = LF) (DataEncoded event @ GetType ctx)))"
proof -
  define ext where
    "ext = (case json_Marshal quote enc (GetExtensions ctx) of Inl e \<Rightarrow> [] | Inr s \<Rightarrow> s)"
  define entry where
    "entry = ''{\"data\": '' @ DataEncoded event @ '', \"type\": '' @ GetType ctx @
             '', \"extensions\": '' @ ext @ ''}''"
  have shown: "display quote enc event lg = Inr (lg @ [entry])"
    by (simp add: display_def ctx entry_def ext_def)
  have valid: "case json_Marshal quote enc (GetExtensions ctx) of
                 Inl e \<Rightarrow> ext = []
               | Inr s \<Rightarrow> ext = s \<and> json_value s"
    using json_Marshal_valid [OF lib] by (auto simp: ext_def split: sum.splits)
  have no_LF: "LF \<notin> set ext"
    using valid json_value_no_LF by (auto split: sum.splits)
  have nil: "GetExtensions ctx = None \<longrightarrow> ext = ''null''"
    by (simp add: ext_def json_Marshal_def)
  have empty: "GetExtensions ctx = Some [] \<longrightarrow> ext = ''{}''"
    by (simp add: ext_def json_Marshal_def)
  have "filter (\<lambda>c. c = LF) ext = []"
    using no_LF by (auto simp: filter_empty_conv)
  then have "filter (\<lambda>c. c = LF)
        (''{\"data\": '' @ DataEncoded event @ '', \"type\": '' @ GetType ctx @
         '', \"extensions\": '' @ ext)
      = filter (\<lambda>c. c = LF) (DataEncoded event @ GetType ctx)"
    by (simp add: LF_def)
  then have lines: "lines_written entry =
      Suc (length (filter (\<lambda>c. c = LF) (DataEncoded event @ GetType ctx)))"
    using lines_written_brace [of "''{\"data\": '' @ DataEncoded event @ '', \"type\": '' @
            GetType ctx @ '', \"extensions\": '' @ ext"]
    by (simp only: entry_def append_assoc)
  show ?thesis
  proof (intro exI conjI)
    show "display quote enc event lg = Inr (lg @ [entry])" by (rule shown)
    show "entry = ''{\"data\": '' @ DataEncoded event @ '', \"type\": '' @ GetType ctx @
                   '', \"extensions\": '' @ ext @ ''}''" by (rule entry_def)
  qed (rule valid nil empty lines)+
qed

theorem display_one_record_witness:
  "display sample_quote sample_enc
       (sample_event ''{\"id\": 2}'' (Some [(''beats'', Flag True), (''heart'', Flag False)]))
       [''earlier'']
     = Inr [''earlier'',
        ''{\"data\": {\"id\": 2}, \"type\": sample.created, \"extensions\": {\"beats\":true,\"heart\":false}}''] \<and>
   json_value ''{\"beats\":true,\"heart\":false}'' \<and>
   lines_written
     ''{\"data\": {\"id\": 2}, \"type\": sample.created, \"extensions\": {\"beats\":true,\"heart\":false}}''
     = 1 \<and>
   display sample_quote sample_enc
       (sample_event ''{\"id\": 2}'' (Some [(''beats'', Flag True), (''the'', Unsupported)]))
       [''earlier'']
     = Inr [''earlier'', ''{\"data\": {\"id\": 2}, \"type\": sample.created, \"extensions\": }'']"
proof -
  let ?ok = "Some [(''beats'', Flag True), (''heart'', Flag False)]"
  let ?bad = "Some [(''beats'', Flag True), (''the'', Unsupported)]"
  have enc: "\<forall>s. sample_enc v = Inr s \<longrightarrow> json_value s" for v
    by (cases v) (auto intro: json_value.true json_value.false)
  have key: "json_string (sample_quote k)" if "k \<in> {''beats'', ''heart'', ''the''}" for k
    unfolding json_string_def sample_quote_def using that
    by (auto intro!: exI [of _ k] json_chars.plain json_chars.no_chars)
  have ctx_ok: "Context (sample_event ''{\"id\": 2}'' ?ok)
      = Some \<lparr>GetType = ''sample.created'', GetExtensions = ?ok\<rparr>"
    by (simp add: sample_event_def)
  have ctx_bad: "Context (sample_event ''{\"id\": 2}'' ?bad)
      = Some \<lparr>GetType = ''sample.created'', GetExtensions = ?bad\<rparr>"
    by (simp add: sample_event_def)
  have lib_ok: "\<forall>kvs k v.
      GetExtensions \<lparr>GetType = ''sample.created'', GetExtensions = ?ok\<rparr> = Some kvs \<and>
      (k, v) \<in> set kvs \<longrightarrow>
      json_string (sample_quote k) \<and> (\<forall>s. sample_enc v = Inr s \<longrightarrow> json_value s)"
    using enc key by auto
  have lib_bad: "\<forall>kvs k v.
      GetExtensions \<lparr>GetType = ''sample.created'', GetExtensions = ?bad\<rparr> = Some kvs \<and>
      (k, v) \<in> set kvs \<longrightarrow>
      json_string (sample_quote k) \<and> (\<forall>s. sample_enc v = Inr s \<longrightarrow> json_value s)"
    using enc key by auto
  have m_ok: "json_Marshal sample_quote sample_enc ?ok = Inr ''{\"beats\":true,\"heart\":false}''"
    by (simp add: json_Marshal_def sample_quote_def)
  have m_bad: "json_Marshal sample_quote sample_enc ?bad
      = Inl (Error ''json: unsupported type: chan int'')"
    by (simp add: json_Marshal_def sample_quote_def)
  from display_one_record [OF ctx_ok lib_ok, of "[''earlier'']"] m_ok
  have ok: "display sample_quote sample_enc (sample_event ''{\"id\": 2}'' ?ok) [''earlier'']
      = Inr [''earlier'',
          ''{\"data\": {\"id\": 2}, \"type\": sample.created, \"extensions\": {\"beats\":true,\"heart\":false}}'']"
    and valid: "json_value ''{\"beats\":true,\"heart\":false}''"
    and lines: "lines_written
      ''{\"data\": {\"id\": 2}, \"type\": sample.created, \"extensions\": {\"beats\":true,\"heart\":false}}''
      = 1"
    by (auto simp: LF_def sample_event_def)
  from display_one_record [OF ctx_bad lib_bad, of "[''earlier'']"] m_bad
  have bad: "display sample_quote sample_enc (sample_event ''{\"id\": 2}'' ?bad) [''earlier'']
      = Inr [''earlier'', ''{\"data\": {\"id\": 2}, \"type\": sample.created, \"extensions\": }'']"
    by (auto simp: sample_event_def)
  from ok valid lines bad show ?thesis by simp
qed

section \<open>Startup\<close>

text \<open>
  C8. Once the client exists: when the tracing configuration cannot be parsed,
  \<^verbatim>\<open>run\<close> writes a warning, hands the no-op configuration to the tracer setup and,
  if that succeeds, starts the receiver, so it ends as the receiver ends. When the tracer
  setup fails, whatever the configuration, \<^verbatim>\<open>run\<close> writes the cause as its last
  entry and leaves the process with status 1, and the receiver is never started.
\<close>

theorem tracing_config_failure_warns_tracer_failure_exits:
  assumes client: "NewClientHTTP (middlewares MarshalIndent (requestLoggingEnabled Getenv)) = Inr c"
  shows
    "(\<forall>e t. parse (Getenv ''K_CONFIG_TRACING'') = Inl e \<and> SetupPublishing NoopConfig = Inr t \<longrightarrow>
        entries (run Getenv MarshalIndent NewClientHTTP parse NoopConfig SetupPublishing
                   StartReceiver display_fn lg)
          = (if requestLoggingEnabled Getenv then lg @ [request_logging_notice] else lg) @
            [''Failed to read tracing config, using the no-op default: '' @ error_text e] @
            (case StartReceiver c display_fn of
               Some (Some e') \<Rightarrow> [''Error during receiver's runtime: '' @ error_text e']
             | _ \<Rightarrow> []) \<and>
        receiver_started (run Getenv MarshalIndent NewClientHTTP parse NoopConfig SetupPublishing
                   StartReceiver display_fn lg) \<and>
        ending (run Getenv MarshalIndent NewClientHTTP parse NoopConfig SetupPublishing
                   StartReceiver display_fn lg)
          = (case StartReceiver c display_fn of
               None \<Rightarrow> Serving
             | Some None \<Rightarrow> Returned
             | Some (Some e') \<Rightarrow> Exit 1)) \<and>
     (\<forall>e. SetupPublishing (fst (JSONToTracingConfig parse NoopConfig (Getenv ''K_CONFIG_TRACING'')))
            = Inl e \<longrightarrow>
        last (entries (run Getenv MarshalIndent NewClientHTTP parse NoopConfig SetupPublishing
                   StartReceiver display_fn lg))
          = ''Failed to initialize tracing: '' @ error_text e \<and>
        ending (run Getenv MarshalIndent NewClientHTTP parse NoopConfig SetupPublishing
                   StartReceiver display_fn lg) = Exit 1 \<and>
        \<not> receiver_started (run Getenv MarshalIndent NewClientHTTP parse NoopConfig
                   SetupPublishing StartReceiver display_fn lg) \<and>
        \<not> tracer_shut_down (run Getenv MarshalIndent NewClientHTTP parse NoopConfig
                   SetupPublishing StartReceiver display_fn lg))"
  using client
  by (auto simp: run_def JSONToTracingConfig_def Let_def split: sum.splits option.splits)

theorem tracing_config_failure_warns_tracer_failure_exits_witness:
  "sample_client (middlewares (\<lambda>lr. Inr ''{}'') (requestLoggingEnabled sample_getenv)) = Inr 2 \<and>
   sample_parse (sample_getenv ''K_CONFIG_TRACING'') = Inl (Error ''invalid character'') \<and>
   run sample_getenv (\<lambda>lr. Inr ''{}'') sample_client sample_parse ''noop''
       (\<lambda>cfg. if cfg = ''noop'' then Inr () else Inl (Error ''unreachable exporter''))
       (\<lambda>c d. None) (display sample_quote sample_enc) []
     = \<lparr>entries = [''Failed to read tracing config, using the no-op default: invalid character''],
        receiver_started = True, tracer_shut_down = False, ending = Serving\<rparr> \<and>
   run sample_getenv (\<lambda>lr. Inr ''{}'') sample_client sample_parse ''noop''
       (\<lambda>cfg. Inl (Error ''unreachable exporter'') :: error + unit)
       (\<lambda>c d. None) (display sample_quote sample_enc) []
     = \<lparr>entries = [''Failed to read tracing config, using the no-op default: invalid character'',
                   ''Failed to initialize tracing: unreachable exporter''],
        receiver_started = False, tracer_shut_down = False, ending = Exit 1\<rparr>"
proof -
  have client:
    "sample_client (middlewares (\<lambda>lr. Inr ''{}'') (requestLoggingEnabled sample_getenv)) = Inr 2"
    by (simp add: sample_client_def middlewares_def)
  show ?thesis
    using client
      tracing_config_failure_warns_tracer_failure_exits [where NewClientHTTP = sample_client and MarshalIndent = "\<lambda>lr. Inr ''{}''"
          and Getenv = sample_getenv and c = 2 and parse = sample_parse and NoopConfig = "''noop''"
          and SetupPublishing =
            "\<lambda>cfg. if cfg = ''noop'' then Inr () else Inl (Error ''unreachable exporter'')"
          and StartReceiver = "\<lambda>c d. None" and display_fn = "display sample_quote sample_enc"
          and lg = "[]", OF client]
      tracing_config_failure_warns_tracer_failure_exits [where NewClientHTTP = sample_client and MarshalIndent = "\<lambda>lr. Inr ''{}''"
          and Getenv = sample_getenv and c = 2 and parse = sample_parse and NoopConfig = "''noop''"
          and SetupPublishing = "\<lambda>cfg. Inl (Error ''unreachable exporter'') :: error + unit"
          and StartReceiver = "\<lambda>c d. None" and display_fn = "display sample_quote sample_enc"
          and lg = "[]", OF client]
    by (simp add: run_def JSONToTracingConfig_def sample_parse_def sample_getenv_def
          requestLoggingEnabled_def ParseBool_def)
qed

end
